theory Spec2Isabelle
  imports Complex_Main
begin

section \<open>Values shared by the collector, the analyzer and the suggester\<close>

text \<open>
  Python floats. A finite double is a real number (the model admits every real, a superset
  of the doubles); the three special values are kept apart because every ordered comparison
  with NaN is false. The source compares durations only with the constants 10.0, 5.0 and
  1.0, which are doubles, so the comparisons below are exact.
\<close>

datatype pyfloat = Finite real | PosInf | NegInf | NaN

fun float_ge :: "pyfloat \<Rightarrow> real \<Rightarrow> bool" where
  "float_ge (Finite x) c = (c \<le> x)"
| "float_ge PosInf c = True"
| "float_ge NegInf c = False"
| "float_ge NaN c = False"

fun float_lt :: "pyfloat \<Rightarrow> real \<Rightarrow> bool" where
  "float_lt (Finite x) c = (x < c)"
| "float_lt PosInf c = False"
| "float_lt NegInf c = True"
| "float_lt NaN c = False"

text \<open>Exceptions that the modelled code can let escape.\<close>

datatype error = AttributeError | TypeError | OverflowError | ValueError | RecursionError

subsection \<open>slow_query_collector.py: SlowQueryInfo\<close>

text \<open>
  The dataclass declares \<open>query_text: str\<close>; Python does not enforce the annotation, so
  the field is an option here and \<open>None\<close> is Python's \<open>None\<close>. Timestamps are opaque
  to the analyzer and the suggester and are kept as integers.
\<close>

record SlowQueryInfo =
  query_id :: string
  query_text :: "string option"
  database :: string
  user :: string
  execution_time :: pyfloat
  scan_rows :: int
  scan_bytes :: int
  memory_used :: int
  cpu_time :: pyfloat
  start_time :: int
  end_time :: int
  peak_memory :: int
  rows_returned :: int

text \<open>
  Rendered numbers. The source prints metrics through float formats (\<open>:.2f\<close>) after a
  true division; the digits printed are a matter of binary floating point and are not
  modelled. A rendering keeps the unit the source chose and the value it was computed from.
  The conversion to a float is taken to succeed: the counters of a record are database
  integers, far inside the range of a double (Python's true division reports a range
  error only for a quotient beyond about 1.8e308).
\<close>

datatype rendered =
    Plain int
  | Wan int
  | Yi int
  | Bytes int
  | KB int
  | MB int
  | GB int
  | Seconds pyfloat

definition scan_rows_formatted :: "'a SlowQueryInfo_scheme \<Rightarrow> rendered" where
  "scan_rows_formatted q =
     (if scan_rows q \<ge> 100000000 then Yi (scan_rows q)
      else if scan_rows q \<ge> 10000 then Wan (scan_rows q)
      else Plain (scan_rows q))"

definition scan_bytes_formatted :: "'a SlowQueryInfo_scheme \<Rightarrow> rendered" where
  "scan_bytes_formatted q =
     (if scan_bytes q \<ge> 1073741824 then GB (scan_bytes q)
      else if scan_bytes q \<ge> 1048576 then MB (scan_bytes q)
      else if scan_bytes q \<ge> 1024 then KB (scan_bytes q)
      else Bytes (scan_bytes q))"

definition SlowQueryInfo_severity :: "'a SlowQueryInfo_scheme \<Rightarrow> string" where
  "SlowQueryInfo_severity q =
     (if float_ge (execution_time q) 10.0 then ''CRITICAL''
      else if float_ge (execution_time q) 5.0 then ''HIGH''
      else if float_ge (execution_time q) 1.0 then ''MEDIUM''
      else ''LOW'')"

section \<open>Text operations of the Python library\<close>

text \<open>
  SQL text is a list of characters, a character being a code point below 256. The patterns
  of the source and their flags are modelled for ASCII text; \<open>upper_char\<close> and
  \<open>lower_char\<close> fold the 26 letters and serve the case-insensitive matching of a
  pattern.
\<close>

definition ascii_lowercase :: string where
  "ascii_lowercase = ''abcdefghijklmnopqrstuvwxyz''"

definition ascii_uppercase :: string where
  "ascii_uppercase = ''ABCDEFGHIJKLMNOPQRSTUVWXYZ''"

definition digits :: string where
  "digits = ''0123456789''"

definition upper_char :: "char \<Rightarrow> char" where
  "upper_char c =
     (case map_of (zip ascii_lowercase ascii_uppercase) c of Some u \<Rightarrow> u | None \<Rightarrow> c)"

definition lower_char :: "char \<Rightarrow> char" where
  "lower_char c =
     (case map_of (zip ascii_uppercase ascii_lowercase) c of Some l \<Rightarrow> l | None \<Rightarrow> c)"

text \<open>
  \<open>str.upper\<close>. Below 128 it maps a-z to A-Z and nothing else. From 128 on it maps
  the thirty small letters of Latin-1 to their capitals, 32 places lower, and the sharp s
  (\<open>0xDF\<close>) to the two letters SS, so that the result can be longer than the text.
  The capitals of \<open>0xB5\<close> and \<open>0xFF\<close> lie above 255 and cannot be written in
  this alphabet: the model leaves the two characters as they are, and a statement that
  depends on the case mapping is made for ASCII text.
\<close>

definition latin1_lowercase :: string where
  "latin1_lowercase =
     [CHR 0xE0, CHR 0xE1, CHR 0xE2, CHR 0xE3, CHR 0xE4, CHR 0xE5, CHR 0xE6, CHR 0xE7,
      CHR 0xE8, CHR 0xE9, CHR 0xEA, CHR 0xEB, CHR 0xEC, CHR 0xED, CHR 0xEE, CHR 0xEF,
      CHR 0xF0, CHR 0xF1, CHR 0xF2, CHR 0xF3, CHR 0xF4, CHR 0xF5, CHR 0xF6, CHR 0xF8,
      CHR 0xF9, CHR 0xFA, CHR 0xFB, CHR 0xFC, CHR 0xFD, CHR 0xFE]"

definition latin1_uppercase :: string where
  "latin1_uppercase =
     [CHR 0xC0, CHR 0xC1, CHR 0xC2, CHR 0xC3, CHR 0xC4, CHR 0xC5, CHR 0xC6, CHR 0xC7,
      CHR 0xC8, CHR 0xC9, CHR 0xCA, CHR 0xCB, CHR 0xCC, CHR 0xCD, CHR 0xCE, CHR 0xCF,
      CHR 0xD0, CHR 0xD1, CHR 0xD2, CHR 0xD3, CHR 0xD4, CHR 0xD5, CHR 0xD6, CHR 0xD8,
      CHR 0xD9, CHR 0xDA, CHR 0xDB, CHR 0xDC, CHR 0xDD, CHR 0xDE]"

definition upper_chars :: "char \<Rightarrow> string" where
  "upper_chars c =
     (if c = CHR 0xDF then ''SS''
      else case map_of (zip latin1_lowercase latin1_uppercase) c of
             Some u \<Rightarrow> [u]
           | None \<Rightarrow> [upper_char c])"

definition upper :: "string \<Rightarrow> string" where
  "upper s = concat (map upper_chars s)"

text \<open>\<open>s.startswith(p)\<close> and \<open>p in s\<close>.\<close>

fun startswith :: "string \<Rightarrow> string \<Rightarrow> bool" where
  "startswith s [] = True"
| "startswith [] (c # p) = False"
| "startswith (x # s) (c # p) = (x = c \<and> startswith s p)"

fun contains :: "string \<Rightarrow> string \<Rightarrow> bool" where
  "contains [] p = (p = [])"
| "contains (x # s) p = (startswith (x # s) p \<or> contains s p)"

subsection \<open>Regular expressions as used by the source\<close>

text \<open>
  The patterns of the source use literals, character sets, \<open>\s\<close>, the greedy repetitions
  \<open>+\<close> and \<open>*\<close> of a single set, alternation, sequencing and \<open>\b\<close>. A match is
  computed as Python's backtracking engine does: from a cursor (the character before it,
  the text after it) the matcher gives every cursor at which the pattern may end, in the
  order in which the engine tries them, so that the head of the list is the match the
  engine reports.
\<close>

datatype cset = Space | OneOf string | NoneOf string

definition whitespace :: string where
  "whitespace = [CHR 0x09, CHR 0x0A, CHR 0x0B, CHR 0x0C, CHR 0x0D,
                 CHR 0x1C, CHR 0x1D, CHR 0x1E, CHR 0x1F, CHR 0x20]"

fun in_cset :: "bool \<Rightarrow> cset \<Rightarrow> char \<Rightarrow> bool" where
  "in_cset ic Space x = (x \<in> set whitespace)"
| "in_cset ic (OneOf cs) x =
     (x \<in> set cs \<or> (ic \<and> (upper_char x \<in> set cs \<or> lower_char x \<in> set cs)))"
| "in_cset ic (NoneOf cs) x =
     (\<not> (x \<in> set cs \<or> (ic \<and> (upper_char x \<in> set cs \<or> lower_char x \<in> set cs))))"

datatype regex =
    Lit string
  | Cls cset
  | Plus cset
  | Star cset
  | Alt regex regex
  | Seq regex regex
  | WordBoundary

type_synonym cursor = "char option \<times> string"

definition char_eq :: "bool \<Rightarrow> char \<Rightarrow> char \<Rightarrow> bool" where
  "char_eq ic c x = (if ic then upper_char c = upper_char x else c = x)"

fun lit :: "bool \<Rightarrow> string \<Rightarrow> cursor \<Rightarrow> cursor list" where
  "lit ic [] cur = [cur]"
| "lit ic (c # cs) (p, []) = []"
| "lit ic (c # cs) (p, x # xs) = (if char_eq ic c x then lit ic cs (Some x, xs) else [])"

text \<open>Zero or more characters of a set, longest run first.\<close>

fun greedy :: "(char \<Rightarrow> bool) \<Rightarrow> cursor \<Rightarrow> cursor list" where
  "greedy P (p, []) = [(p, [])]"
| "greedy P (p, x # xs) =
     (if P x then greedy P (Some x, xs) @ [(p, x # xs)] else [(p, x # xs)])"

definition word_char :: "char \<Rightarrow> bool" where
  "word_char c = (c \<in> set (ascii_lowercase @ ascii_uppercase @ digits @ ''_''))"

definition at_boundary :: "cursor \<Rightarrow> bool" where
  "at_boundary cur =
     ((case fst cur of None \<Rightarrow> False | Some c \<Rightarrow> word_char c)
      \<noteq> (case snd cur of [] \<Rightarrow> False | x # xs \<Rightarrow> word_char x))"

fun rmatch :: "bool \<Rightarrow> regex \<Rightarrow> cursor \<Rightarrow> cursor list" where
  "rmatch ic (Lit s) cur = lit ic s cur"
| "rmatch ic (Cls k) (p, []) = []"
| "rmatch ic (Cls k) (p, x # xs) = (if in_cset ic k x then [(Some x, xs)] else [])"
| "rmatch ic (Plus k) (p, []) = []"
| "rmatch ic (Plus k) (p, x # xs) =
     (if in_cset ic k x then greedy (in_cset ic k) (Some x, xs) else [])"
| "rmatch ic (Star k) cur = greedy (in_cset ic k) cur"
| "rmatch ic (Alt a b) cur = rmatch ic a cur @ rmatch ic b cur"
| "rmatch ic (Seq a b) cur = concat (map (rmatch ic b) (rmatch ic a cur))"
| "rmatch ic WordBoundary cur = (if at_boundary cur then [cur] else [])"

text \<open>
  \<open>re.search\<close>: the leftmost position at which the pattern matches, with the end the
  engine reports there. The result is the pair of the start and end cursors.
\<close>

fun search_from :: "bool \<Rightarrow> regex \<Rightarrow> cursor \<Rightarrow> (cursor \<times> cursor) option" where
  "search_from ic r (p, []) =
     (case rmatch ic r (p, []) of e # es \<Rightarrow> Some ((p, []), e) | [] \<Rightarrow> None)"
| "search_from ic r (p, x # xs) =
     (case rmatch ic r (p, x # xs) of
        e # es \<Rightarrow> Some ((p, x # xs), e)
      | [] \<Rightarrow> search_from ic r (Some x, xs))"

definition re_search :: "bool \<Rightarrow> regex \<Rightarrow> string \<Rightarrow> bool" where
  "re_search ic r s = (search_from ic r (None, s) \<noteq> None)"

text \<open>
  \<open>re.search(pre + '(' + grp + ')', s)\<close> followed by \<open>.group(1)\<close>: the text of the
  group that closes the pattern, in the first match in the engine's order.
\<close>

fun first_group :: "bool \<Rightarrow> regex \<Rightarrow> cursor list \<Rightarrow> string option" where
  "first_group ic g [] = None"
| "first_group ic g (b # bs) =
     (case rmatch ic g b of
        e # es \<Rightarrow> Some (take (length (snd b) - length (snd e)) (snd b))
      | [] \<Rightarrow> first_group ic g bs)"

fun search_group_from :: "bool \<Rightarrow> regex \<Rightarrow> regex \<Rightarrow> cursor \<Rightarrow> string option" where
  "search_group_from ic pre g (p, []) = first_group ic g (rmatch ic pre (p, []))"
| "search_group_from ic pre g (p, x # xs) =
     (case first_group ic g (rmatch ic pre (p, x # xs)) of
        Some t \<Rightarrow> Some t
      | None \<Rightarrow> search_group_from ic pre g (Some x, xs))"

definition re_search_group1 :: "bool \<Rightarrow> regex \<Rightarrow> regex \<Rightarrow> string \<Rightarrow> string option" where
  "re_search_group1 ic pre g s = search_group_from ic pre g (None, s)"

text \<open>
  \<open>re.sub(pattern, repl, s)\<close> with a replacement free of escapes. The engine looks for
  the next match from the end of the previous one; after an empty match it must advance,
  that is, an empty match at the very same position is not accepted again.
\<close>

fun first_advancing :: "cursor \<Rightarrow> cursor list \<Rightarrow> cursor option" where
  "first_advancing cur [] = None"
| "first_advancing cur (e # es) =
     (if length (snd e) < length (snd cur) then Some e else first_advancing cur es)"

definition search_adv :: "bool \<Rightarrow> regex \<Rightarrow> bool \<Rightarrow> cursor \<Rightarrow> (cursor \<times> cursor) option" where
  "search_adv ic r adv cur =
     (if \<not> adv then search_from ic r cur
      else case first_advancing cur (rmatch ic r cur) of
             Some e \<Rightarrow> Some (cur, e)
           | None \<Rightarrow> (case snd cur of [] \<Rightarrow> None | x # xs \<Rightarrow> search_from ic r (Some x, xs)))"

function re_sub_from :: "bool \<Rightarrow> regex \<Rightarrow> string \<Rightarrow> bool \<Rightarrow> cursor \<Rightarrow> string" where
  "re_sub_from ic r repl adv cur =
     (case search_adv ic r adv cur of
        None \<Rightarrow> snd cur
      | Some (b, e) \<Rightarrow>
          take (length (snd cur) - length (snd b)) (snd cur) @ repl @
            (if length (snd e) < length (snd cur)
               then re_sub_from ic r repl (length (snd e) = length (snd b)) e
             else if length (snd e) = length (snd cur) \<and> \<not> adv
               then re_sub_from ic r repl True e
             else snd e))"
  by pat_completeness auto
termination
  by (relation "measures [\<lambda>(ic, r, repl, adv, cur). length (snd cur),
                          \<lambda>(ic, r, repl, adv, cur). if adv then 0 else 1]") auto

definition re_sub :: "bool \<Rightarrow> regex \<Rightarrow> string \<Rightarrow> string \<Rightarrow> string" where
  "re_sub ic r repl s = re_sub_from ic r repl False (None, s)"

section \<open>query_analyzer.py\<close>

datatype ProblemType =
    FULL_TABLE_SCAN
  | NO_INDEX
  | TOO_MANY_ROWS
  | MEMORY_INTENSIVE
  | JOIN_INEFFICIENT
  | SUBQUERY_INEFFICIENT
  | ORDERBY_EXPENSIVE
  | GROUPBY_EXPENSIVE
  | LARGE_RESULT_SET
  | NO_WHERE_CLAUSE
  | SELECT_STAR
  | OR_CONDITION
  | LIKE_PREFIX_WILDCARD
  | FUNCTION_IN_WHERE

text \<open>The \<open>name\<close> attribute of an enumeration member.\<close>

fun name :: "ProblemType \<Rightarrow> string" where
  "name FULL_TABLE_SCAN = ''FULL_TABLE_SCAN''"
| "name NO_INDEX = ''NO_INDEX''"
| "name TOO_MANY_ROWS = ''TOO_MANY_ROWS''"
| "name MEMORY_INTENSIVE = ''MEMORY_INTENSIVE''"
| "name JOIN_INEFFICIENT = ''JOIN_INEFFICIENT''"
| "name SUBQUERY_INEFFICIENT = ''SUBQUERY_INEFFICIENT''"
| "name ORDERBY_EXPENSIVE = ''ORDERBY_EXPENSIVE''"
| "name GROUPBY_EXPENSIVE = ''GROUPBY_EXPENSIVE''"
| "name LARGE_RESULT_SET = ''LARGE_RESULT_SET''"
| "name NO_WHERE_CLAUSE = ''NO_WHERE_CLAUSE''"
| "name SELECT_STAR = ''SELECT_STAR''"
| "name OR_CONDITION = ''OR_CONDITION''"
| "name LIKE_PREFIX_WILDCARD = ''LIKE_PREFIX_WILDCARD''"
| "name FUNCTION_IN_WHERE = ''FUNCTION_IN_WHERE''"

text \<open>
  Message texts. The literals of the source are Chinese prose and f-strings; a message is
  kept as an English gloss that identifies the literal, with the values the f-string
  interpolates. \<open>Verbatim\<close> is a text the model computes character by character.
\<close>

datatype message = Verbatim string | Template string "rendered list"

record QueryProblem =
  problem_type :: ProblemType
  severity :: string
  description :: message
  suggestion :: message
  evidence :: message

text \<open>
  The analyzer object after \<open>__init__\<close>: \<open>config or {}\<close>, and the two thresholds read
  with \<open>dict.get\<close> and their defaults. The configuration dictionary is a list of
  key-value pairs with integer values; only the two threshold keys are read.
\<close>

record QueryAnalyzer =
  config :: "(string \<times> int) list"
  max_scan_rows :: int
  max_scan_bytes :: int

definition dict_get :: "(string \<times> int) list \<Rightarrow> string \<Rightarrow> int \<Rightarrow> int" where
  "dict_get d k dflt = (case map_of d k of None \<Rightarrow> dflt | Some v \<Rightarrow> v)"

definition QueryAnalyzer_init :: "(string \<times> int) list option \<Rightarrow> QueryAnalyzer" where
  "QueryAnalyzer_init cfg =
     (let c = (case cfg of None \<Rightarrow> [] | Some d \<Rightarrow> d) in
      \<lparr> config = c,
        max_scan_rows = dict_get c ''max_scan_rows'' 10000000,
        max_scan_bytes = dict_get c ''max_scan_bytes'' 1073741824 \<rparr>)"

definition analyze_execution_time :: "'a SlowQueryInfo_scheme \<Rightarrow> QueryProblem list" where
  "analyze_execution_time q =
     (if float_ge (execution_time q) 10.0 then
        [\<lparr> problem_type = FULL_TABLE_SCAN, severity = ''CRITICAL'',
           description = Template ''query execution time too long: {} seconds''
                           [Seconds (execution_time q)],
           suggestion = Template ''check for a full table scan, consider an index or a rewrite'' [],
           evidence = Template ''execution time: {}s'' [Seconds (execution_time q)] \<rparr>]
      else if float_ge (execution_time q) 5.0 then
        [\<lparr> problem_type = FULL_TABLE_SCAN, severity = ''HIGH'',
           description = Template ''query execution time rather long: {} seconds''
                           [Seconds (execution_time q)],
           suggestion = Template ''analyse the query plan, check whether to optimise'' [],
           evidence = Template ''execution time: {}s'' [Seconds (execution_time q)] \<rparr>]
      else [])"

definition analyze_scan_data :: "QueryAnalyzer \<Rightarrow> 'a SlowQueryInfo_scheme \<Rightarrow> QueryProblem list" where
  "analyze_scan_data self q =
     (if scan_rows q > max_scan_rows self then
        [\<lparr> problem_type = TOO_MANY_ROWS, severity = ''HIGH'',
           description = Template ''too many rows scanned: {}'' [scan_rows_formatted q],
           suggestion = Template ''add a WHERE condition or an index to scan fewer rows'' [],
           evidence = Template ''rows scanned: {}'' [Plain (scan_rows q)] \<rparr>]
      else [])
     @
     (if scan_bytes q > max_scan_bytes self then
        [\<lparr> problem_type = TOO_MANY_ROWS, severity = ''HIGH'',
           description = Template ''too much data scanned: {}'' [scan_bytes_formatted q],
           suggestion = Template ''select only needed columns, avoid SELECT *, prune partitions'' [],
           evidence = Template ''bytes scanned: {}'' [Plain (scan_bytes q)] \<rparr>]
      else [])
     @
     (if memory_used q > 536870912 then
        [\<lparr> problem_type = MEMORY_INTENSIVE, severity = ''MEDIUM'',
           description = Template ''memory use rather high: {} MB'' [MB (memory_used q)],
           suggestion = Template ''raise the memory limit, optimise the query or tune the engine'' [],
           evidence = Template ''memory use: {} MB'' [MB (memory_used q)] \<rparr>]
      else [])"

text \<open>The patterns of \<open>_analyze_sql_structure\<close>, in the order of the source.\<close>

definition or_pattern :: regex where
  \<comment> \<open>\<^verbatim>\<open>\bOR\b\<close>\<close>
  "or_pattern = Seq WordBoundary (Seq (Lit ''OR'') WordBoundary)"

definition like_prefix_pattern :: regex where
  \<comment> \<open>\<^verbatim>\<open>LIKE\s+['"]%[^%]\<close>\<close>
  "like_prefix_pattern =
     Seq (Lit ''LIKE'') (Seq (Plus Space) (Seq (Cls (OneOf [CHR 0x27, CHR 0x22]))
       (Seq (Lit ''%'') (Cls (NoneOf ''%'')))))"

definition where_head :: regex where
  \<comment> \<open>\<^verbatim>\<open>WHERE\s+\<close>, the part of \<^verbatim>\<open>WHERE\s+([^;]+)\<close> before its group\<close>
  "where_head = Seq (Lit ''WHERE'') (Plus Space)"

definition where_body :: regex where
  \<comment> \<open>\<^verbatim>\<open>[^;]+\<close>, the group of \<^verbatim>\<open>WHERE\s+([^;]+)\<close>\<close>
  "where_body = Plus (NoneOf '';'')"

definition function_call_pattern :: regex where
  \<comment> \<open>\<^verbatim>\<open>[A-Z_]+\([^)]+\)\<close>\<close>
  "function_call_pattern =
     Seq (Plus (OneOf (ascii_uppercase @ ''_''))) (Seq (Lit ''('')
       (Seq (Plus (NoneOf '')'')) (Lit '')'')))"

definition aggregate_pattern :: regex where
  \<comment> \<open>\<^verbatim>\<open>(COUNT|SUM|AVG|MAX|MIN)\(\<close>\<close>
  "aggregate_pattern =
     Seq (Alt (Lit ''COUNT'') (Alt (Lit ''SUM'') (Alt (Lit ''AVG'')
       (Alt (Lit ''MAX'') (Lit ''MIN''))))) (Lit ''('')"

definition subquery_pattern :: regex where
  \<comment> \<open>\<^verbatim>\<open>FROM\s*\([^)]+SELECT\<close>, searched with \<open>re.IGNORECASE\<close>\<close>
  "subquery_pattern =
     Seq (Lit ''FROM'') (Seq (Star Space) (Seq (Lit ''('')
       (Seq (Plus (NoneOf '')'')) (Lit ''SELECT''))))"

text \<open>
  The six checks of the structure pass, one definition for each commented block of the
  source, applied to the upper-cased text \<open>sql\<close>.
\<close>

definition check_select_star :: "string \<Rightarrow> QueryProblem list" where
  "check_select_star sql =
     (if contains sql ''SELECT *'' then
        [\<lparr> problem_type = SELECT_STAR, severity = ''MEDIUM'',
           description = Template ''SELECT * may return unneeded columns'' [],
           suggestion = Template ''name the needed columns explicitly'' [],
           evidence = Verbatim ''SELECT *'' \<rparr>]
      else [])"

definition check_or_condition :: "string \<Rightarrow> QueryProblem list" where
  "check_or_condition sql =
     (if re_search False or_pattern sql \<and> contains sql ''WHERE'' then
        [\<lparr> problem_type = OR_CONDITION, severity = ''LOW'',
           description = Template ''an OR condition may defeat the index'' [],
           suggestion = Template ''consider UNION ALL instead of OR'' [],
           evidence = Template ''found an OR condition'' [] \<rparr>]
      else [])"

definition check_like_prefix :: "string \<Rightarrow> QueryProblem list" where
  "check_like_prefix sql =
     (if re_search False like_prefix_pattern sql then
        [\<lparr> problem_type = LIKE_PREFIX_WILDCARD, severity = ''HIGH'',
           description = Template ''LIKE with a prefix wildcard cannot use an index'' [],
           suggestion = Template ''avoid the prefix wildcard, consider a full-text or inverted index'' [],
           evidence = Template ''LIKE %...'' [] \<rparr>]
      else [])"

definition check_function_in_where :: "string \<Rightarrow> QueryProblem list" where
  "check_function_in_where sql =
     (case re_search_group1 False where_head where_body sql of
        None \<Rightarrow> []
      | Some where_clause \<Rightarrow>
          if re_search False function_call_pattern where_clause then
            [\<lparr> problem_type = FUNCTION_IN_WHERE, severity = ''MEDIUM'',
               description = Template ''a function in the WHERE clause may defeat the index'' [],
               suggestion = Template ''move the function to the other side of the comparison'' [],
               evidence = Template ''the WHERE clause contains a function'' [] \<rparr>]
          else [])"

definition check_no_where :: "string \<Rightarrow> QueryProblem list" where
  "check_no_where sql =
     (let has_where = contains sql ''WHERE'';
          has_join = contains sql ''JOIN'';
          is_select = startswith sql ''SELECT''
      in if is_select \<and> \<not> has_where \<and> \<not> has_join then
           if \<not> re_search False aggregate_pattern sql then
             [\<lparr> problem_type = NO_WHERE_CLAUSE, severity = ''HIGH'',
                description = Template ''the SELECT query has no WHERE condition'' [],
                suggestion = Template ''add a WHERE condition to bound the data'' [],
                evidence = Template ''no WHERE condition'' [] \<rparr>]
           else []
         else [])"

definition check_subquery :: "string \<Rightarrow> QueryProblem list" where
  "check_subquery sql =
     (if re_search True subquery_pattern sql then
        [\<lparr> problem_type = SUBQUERY_INEFFICIENT, severity = ''MEDIUM'',
           description = Template ''found a subquery, which may cost performance'' [],
           suggestion = Template ''consider a CTE (WITH clause) or a JOIN instead'' [],
           evidence = Template ''found a subquery'' [] \<rparr>]
      else [])"

text \<open>
  The structure pass. \<open>query_text.upper()\<close> stands before the \<open>try\<close>, so a record
  without text raises AttributeError out of the pass. Inside the \<open>try\<close> the first
  statement is \<open>sqlparse.parse(query_text)[0]\<close>. The parser is a library outside the
  repository and its result is used nowhere else; the pass takes as parameter \<open>parses\<close>
  whether that statement completes for a given text. When it does not (an empty statement
  list or a parser error), the handler logs a warning and the pass returns the problems
  collected so far, which are none. None of the later statements can raise.
\<close>

definition analyze_sql_structure ::
  "(string \<Rightarrow> bool) \<Rightarrow> 'a SlowQueryInfo_scheme \<Rightarrow> error + QueryProblem list" where
  "analyze_sql_structure parses q =
     (case query_text q of
        None \<Rightarrow> Inl AttributeError
      | Some txt \<Rightarrow>
          (let sql = upper txt in
           if \<not> parses txt then Inr []
           else Inr (check_select_star sql @ check_or_condition sql @ check_like_prefix sql
                     @ check_function_in_where sql @ check_no_where sql @ check_subquery sql)))"

text \<open>
  An execution plan is asked two things: its truth value (\<open>if execution_plan:\<close>) and its
  \<open>str()\<close> rendering. A plan is represented by these two answers.
\<close>

record plan_blob =
  truthy :: bool
  str :: string

definition analyze_execution_plan :: "plan_blob \<Rightarrow> QueryProblem list" where
  "analyze_execution_plan execution_plan =
     (let plan_str = upper (str execution_plan) in
      if contains plan_str ''OLAP_SCAN'' \<or> contains plan_str ''FULL_SCAN'' then
        [\<lparr> problem_type = FULL_TABLE_SCAN, severity = ''MEDIUM'',
           description = Template ''the plan shows a possible full table scan'' [],
           suggestion = Template ''check whether an index or partition pruning applies'' [],
           evidence = Template ''the plan contains a full table scan'' [] \<rparr>]
      else [])"

definition analyze_query ::
  "QueryAnalyzer \<Rightarrow> (string \<Rightarrow> bool) \<Rightarrow> 'a SlowQueryInfo_scheme \<Rightarrow> plan_blob option
     \<Rightarrow> error + QueryProblem list" where
  "analyze_query self parses q execution_plan =
     (let p1 = analyze_execution_time q;
          p2 = analyze_scan_data self q
      in case analyze_sql_structure parses q of
           Inl e \<Rightarrow> Inl e
         | Inr p3 \<Rightarrow>
             Inr (p1 @ p2 @ p3 @
                  (case execution_plan of
                     None \<Rightarrow> []
                   | Some pl \<Rightarrow> if truthy pl then analyze_execution_plan pl else [])))"

text \<open>Constructor of the dataclass, for use where a problem is written down by hand.\<close>

definition QueryProblem_new ::
  "ProblemType \<Rightarrow> string \<Rightarrow> message \<Rightarrow> message \<Rightarrow> message \<Rightarrow> QueryProblem" where
  "QueryProblem_new t sev d s e =
     \<lparr> problem_type = t, severity = sev, description = d, suggestion = s, evidence = e \<rparr>"

subsection \<open>The exceptions of number rendering and of a plan's text\<close>

text \<open>
  The definitions above follow the detector where its numbers can be rendered and its plan
  can be printed. Outside that range Python raises, and \<open>detect_problems\<close> below is
  \<open>analyze_query\<close> with these exceptions written in, in the order in which the source
  meets them.

  \<^item> A true division \<open>a / b\<close> of integers raises OverflowError when the quotient,
    rounded to a double, leaves the range of the doubles: that is from
    \<open>2 ^ 1024 - 2 ^ 970\<close> on, half a unit in the last place above the largest double.
  \<^item> Turning an integer into decimal text (\<open>str\<close>, or an f-string field without a
    format) raises ValueError when the integer has more than 4300 decimal digits, the
    limit Python has by default since 3.11.
  \<^item> \<open>str()\<close> of a plan may itself raise: a dictionary nested deeper than the
    recursion limit gives RecursionError.

  Formatting a float with \<open>:.2f\<close> never raises, infinities and NaN included.
\<close>

definition true_div_error :: "int \<Rightarrow> int \<Rightarrow> error option" where
  "true_div_error a b =
     (if \<bar>a\<bar> \<ge> (2 ^ 1024 - 2 ^ 970) * b then Some OverflowError else None)"

definition int_text_error :: "int \<Rightarrow> error option" where
  "int_text_error n = (if \<bar>n\<bar> \<ge> 10 ^ 4300 then Some ValueError else None)"

text \<open>The first exception met in a sequence of evaluations.\<close>

fun first_error :: "error option list \<Rightarrow> error option" where
  "first_error [] = None"
| "first_error (None # es) = first_error es"
| "first_error (Some e # es) = Some e"

text \<open>The exception raised by the property \<open>scan_rows_formatted\<close>, if any.\<close>

definition scan_rows_formatted_error :: "'a SlowQueryInfo_scheme \<Rightarrow> error option" where
  "scan_rows_formatted_error q =
     (if scan_rows q \<ge> 100000000 then true_div_error (scan_rows q) 100000000
      else if scan_rows q \<ge> 10000 then true_div_error (scan_rows q) 10000
      else int_text_error (scan_rows q))"

text \<open>The exception raised by the property \<open>scan_bytes_formatted\<close>, if any.\<close>

definition scan_bytes_formatted_error :: "'a SlowQueryInfo_scheme \<Rightarrow> error option" where
  "scan_bytes_formatted_error q =
     (if scan_bytes q \<ge> 1073741824 then true_div_error (scan_bytes q) 1073741824
      else if scan_bytes q \<ge> 1048576 then true_div_error (scan_bytes q) 1048576
      else if scan_bytes q \<ge> 1024 then true_div_error (scan_bytes q) 1024
      else int_text_error (scan_bytes q))"

text \<open>
  The exception raised by \<open>_analyze_scan_data\<close>, if any. Each rule that fires builds the
  description and then the evidence of its problem; the rules run in the order rows,
  bytes, memory, and the first exception ends the pass.
\<close>

definition analyze_scan_data_error ::
  "QueryAnalyzer \<Rightarrow> 'a SlowQueryInfo_scheme \<Rightarrow> error option" where
  "analyze_scan_data_error self q =
     first_error
       [if scan_rows q > max_scan_rows self
        then first_error [scan_rows_formatted_error q, int_text_error (scan_rows q)]
        else None,
        if scan_bytes q > max_scan_bytes self
        then first_error [scan_bytes_formatted_error q, int_text_error (scan_bytes q)]
        else None,
        if memory_used q > 536870912
        then first_error [true_div_error (memory_used q) 1048576,
                          true_div_error (memory_used q) 1048576]
        else None]"

definition analyze_scan_data_checked ::
  "QueryAnalyzer \<Rightarrow> 'a SlowQueryInfo_scheme \<Rightarrow> error + QueryProblem list" where
  "analyze_scan_data_checked self q =
     (case analyze_scan_data_error self q of
        Some e \<Rightarrow> Inl e
      | None \<Rightarrow> Inr (analyze_scan_data self q))"

text \<open>
  A plan as the caller hands it over: its truth value, and what \<open>str()\<close> does on it, an
  exception or a text.
\<close>

record plan_object =
  bool_of :: bool
  str_of :: "error + string"

text \<open>
  The detector with every exception it can let escape: the passes run in the order of
  \<open>analyze_query\<close>, so an exception of the scan-volume pass comes before the
  AttributeError of a missing text, and that before an exception of the plan's \<open>str()\<close>.
\<close>

definition detect_problems ::
  "QueryAnalyzer \<Rightarrow> (string \<Rightarrow> bool) \<Rightarrow> 'a SlowQueryInfo_scheme \<Rightarrow> plan_object option
     \<Rightarrow> error + QueryProblem list" where
  "detect_problems self parses q execution_plan =
     (let p1 = analyze_execution_time q in
      case analyze_scan_data_checked self q of
        Inl e \<Rightarrow> Inl e
      | Inr p2 \<Rightarrow>
          (case analyze_sql_structure parses q of
             Inl e \<Rightarrow> Inl e
           | Inr p3 \<Rightarrow>
               (case execution_plan of
                  None \<Rightarrow> Inr (p1 @ p2 @ p3)
                | Some pl \<Rightarrow>
                    if bool_of pl then
                      (case str_of pl of
                         Inl e \<Rightarrow> Inl e
                       | Inr s \<Rightarrow>
                           Inr (p1 @ p2 @ p3
                                @ analyze_execution_plan \<lparr> truthy = True, str = s \<rparr>))
                    else Inr (p1 @ p2 @ p3))))"

section \<open>optimization_suggester.py\<close>

text \<open>
  A suggestion. \<open>original_sql\<close> receives the record's \<open>query_text\<close> as it is, so it is
  an option as well. The template texts are glosses as before. Two of them name what the
  helpers \<open>_extract_where_columns\<close>, \<open>_extract_order_columns\<close>, \<open>_extract_join_columns\<close>
  and \<open>_extract_table_names\<close> scrape from the text; the helpers return the elements of a
  Python \<open>set\<close> in an order the language leaves open, and the scraped names are not part
  of the model. The helpers are total on a string (the one list they index without a test
  is the result of \<open>re.split\<close>, never empty) and raise TypeError on \<open>None\<close>, which
  is modelled. The parameter \<open>table_schema\<close> is passed along and never read; it is left
  out.
\<close>

record OptimizationSuggestion =
  title :: message
  description :: message
  priority :: string
  category :: string
  original_sql :: "string option"
  suggested_sql :: "message option"
  estimated_improvement :: "message option"
  implementation_notes :: "message option"

definition suggest_index_optimization ::
  "'a SlowQueryInfo_scheme \<Rightarrow> QueryProblem \<Rightarrow> error + OptimizationSuggestion" where
  "suggest_index_optimization q problem =
     (case query_text q of
        None \<Rightarrow> Inl TypeError
      | Some sql \<Rightarrow>
          Inr \<lparr> title = Template ''add an index to optimise the query'' [],
                description = Template ''execution time too long ({}s), add an index on the columns''
                                [Seconds (execution_time q)],
                priority = ''HIGH'',
                category = ''INDEX'',
                original_sql = Some sql,
                suggested_sql = Some (Template ''CREATE INDEX idx_optimization ON your_table (columns)'' []),
                estimated_improvement = Some (Template ''expect 50%-90% better query performance'' []),
                implementation_notes = Some (Template ''check selectivity, compound index, index use'' []) \<rparr>)"

definition suggest_specific_columns ::
  "'a SlowQueryInfo_scheme \<Rightarrow> QueryProblem \<Rightarrow> error + OptimizationSuggestion" where
  "suggest_specific_columns q problem =
     (case query_text q of
        None \<Rightarrow> Inl TypeError
      | Some sql \<Rightarrow>
          Inr \<lparr> title = Template ''avoid SELECT *'' [],
                description = Template ''SELECT * returns every column and adds I/O and transfer'' [],
                priority = ''MEDIUM'',
                category = ''QUERY'',
                original_sql = Some sql,
                suggested_sql = Some (Template ''SELECT col1, col2, col3 FROM table WHERE ...;'' []),
                estimated_improvement = Some (Template ''30%-70% less data transferred'' []),
                implementation_notes = Some (Template ''needed columns only, no large fields, less memory'' []) \<rparr>)"

definition like_rewrite_pattern :: regex where
  \<comment> \<open>\<^verbatim>\<open>LIKE\s+['\"]%\<close>, substituted with \<open>re.IGNORECASE\<close>\<close>
  "like_rewrite_pattern =
     Seq (Lit ''LIKE'') (Seq (Plus Space) (Seq (Cls (OneOf [CHR 0x27, CHR 0x22])) (Lit ''%'')))"

definition like_replacement :: string where
  \<comment> \<open>the replacement \<^verbatim>\<open>LIKE '\<close>\<close>
  "like_replacement = ''LIKE '' @ [CHR 0x27]"

definition suggest_like_optimization ::
  "'a SlowQueryInfo_scheme \<Rightarrow> QueryProblem \<Rightarrow> error + OptimizationSuggestion" where
  "suggest_like_optimization q problem =
     (case query_text q of
        None \<Rightarrow> Inl TypeError
      | Some sql \<Rightarrow>
          Inr \<lparr> title = Template ''optimise the LIKE query'' [],
                description = Template ''LIKE with a prefix wildcard (%xxx) cannot use an index'' [],
                priority = ''HIGH'',
                category = ''QUERY'',
                original_sql = Some sql,
                suggested_sql =
                  Some (Verbatim (re_sub True like_rewrite_pattern like_replacement sql)),
                estimated_improvement = Some (Template ''index hit rate from 0% to near 100%'' []),
                implementation_notes = Some (Template ''suffix wildcard, full-text index or inverted index'' []) \<rparr>)"

definition suggest_or_replacement ::
  "'a SlowQueryInfo_scheme \<Rightarrow> QueryProblem \<Rightarrow> error + OptimizationSuggestion" where
  "suggest_or_replacement q problem =
     Inr \<lparr> title = Template ''replace OR by UNION ALL'' [],
           description = Template ''OR may defeat the index, UNION ALL may do better'' [],
           priority = ''LOW'',
           category = ''QUERY'',
           original_sql = query_text q,
           suggested_sql = Some (Template ''SELECT ... condition1 UNION ALL SELECT ... condition2;'' []),
           estimated_improvement = Some (Template ''index hit rate may rise 20%-50%'' []),
           implementation_notes = Some (Template ''test both, UNION ALL when exclusive, UNION when overlapping'' []) \<rparr>"

definition suggest_function_optimization ::
  "'a SlowQueryInfo_scheme \<Rightarrow> QueryProblem \<Rightarrow> error + OptimizationSuggestion" where
  "suggest_function_optimization q problem =
     Inr \<lparr> title = Template ''avoid functions in the WHERE clause'' [],
           description = Template ''a function blocks the index, rewrite the query logic'' [],
           priority = ''MEDIUM'',
           category = ''QUERY'',
           original_sql = query_text q,
           suggested_sql = Some (Template ''example: WHERE YEAR(created_at) = 2023 as a range'' []),
           estimated_improvement = Some (Template ''index hit rate from 0% to 100%'' []),
           implementation_notes = Some (Template ''function on the constant, range query, computed column index'' []) \<rparr>"

definition suggest_row_reduction ::
  "'a SlowQueryInfo_scheme \<Rightarrow> QueryProblem \<Rightarrow> error + OptimizationSuggestion" where
  "suggest_row_reduction q problem =
     Inr \<lparr> title = Template ''scan fewer rows'' [],
           description = Template ''{} rows scanned, far above the advised threshold''
                           [scan_rows_formatted q],
           priority = ''HIGH'',
           category = ''QUERY'',
           original_sql = query_text q,
           suggested_sql = Some (Template ''checklist; rows scanned now: {}'' [scan_rows_formatted q]),
           estimated_improvement = Some (Template ''50%-99% fewer rows scanned'' []),
           implementation_notes = Some (Template ''find the bottleneck, add WHERE conditions, compound index'' []) \<rparr>"

definition suggest_cte_or_join ::
  "'a SlowQueryInfo_scheme \<Rightarrow> QueryProblem \<Rightarrow> error + OptimizationSuggestion" where
  "suggest_cte_or_join q problem =
     Inr \<lparr> title = Template ''turn the subquery into a CTE or a JOIN'' [],
           description = Template ''a subquery may cost performance, consider a CTE or a JOIN'' [],
           priority = ''MEDIUM'',
           category = ''QUERY'',
           original_sql = query_text q,
           suggested_sql = Some (Template ''WITH cte1 AS (...), cte2 AS (...) SELECT ... JOIN ...;'' []),
           estimated_improvement = Some (Template ''expect 20%-60% better performance'' []),
           implementation_notes = Some (Template ''subquery to JOIN, CTE for readability, measure'' []) \<rparr>"

text \<open>
  The dispatch compares the \<open>name\<close> of the problem's type with seven string constants, in
  this order, and returns \<open>None\<close> when none is equal.
\<close>

definition lift_suggestion ::
  "error + OptimizationSuggestion \<Rightarrow> error + OptimizationSuggestion option" where
  "lift_suggestion r = (case r of Inl e \<Rightarrow> Inl e | Inr s \<Rightarrow> Inr (Some s))"

definition generate_suggestion_for_problem ::
  "'a SlowQueryInfo_scheme \<Rightarrow> QueryProblem \<Rightarrow> error + OptimizationSuggestion option" where
  "generate_suggestion_for_problem q problem =
     (let problem_type = problem_type problem in
      if name problem_type = ''FULL_TABLE_SCAN'' then
        lift_suggestion (suggest_index_optimization q problem)
      else if name problem_type = ''SELECT_STAR'' then
        lift_suggestion (suggest_specific_columns q problem)
      else if name problem_type = ''LIKE_PREFIX_WILDCARD'' then
        lift_suggestion (suggest_like_optimization q problem)
      else if name problem_type = ''OR_CONDITION'' then
        lift_suggestion (suggest_or_replacement q problem)
      else if name problem_type = ''FUNCTION_IN_WHERE'' then
        lift_suggestion (suggest_function_optimization q problem)
      else if name problem_type = ''TOO_MANY_ROWS'' then
        lift_suggestion (suggest_row_reduction q problem)
      else if name problem_type = ''SUBQUERY_INEFFICIENT'' then
        lift_suggestion (suggest_cte_or_join q problem)
      else Inr None)"

text \<open>
  The loop of \<open>generate_suggestions\<close>: the list built so far is the accumulator, a
  suggestion is appended when the dispatch returned one, and an exception ends the loop.
\<close>

fun suggestions_loop ::
  "'a SlowQueryInfo_scheme \<Rightarrow> OptimizationSuggestion list \<Rightarrow> QueryProblem list
     \<Rightarrow> error + OptimizationSuggestion list" where
  "suggestions_loop q suggestions [] = Inr suggestions"
| "suggestions_loop q suggestions (problem # problems) =
     (case generate_suggestion_for_problem q problem of
        Inl e \<Rightarrow> Inl e
      | Inr None \<Rightarrow> suggestions_loop q suggestions problems
      | Inr (Some s) \<Rightarrow> suggestions_loop q (suggestions @ [s]) problems)"

definition generate_suggestions ::
  "'a SlowQueryInfo_scheme \<Rightarrow> QueryProblem list \<Rightarrow> error + OptimizationSuggestion list" where
  "generate_suggestions q problems = suggestions_loop q [] problems"

section \<open>Auxiliary definitions for the statements\<close>

text \<open>A record with the given text, duration, rows, bytes and memory; the other fields are fixed.\<close>

definition example_record ::
  "string option \<Rightarrow> pyfloat \<Rightarrow> int \<Rightarrow> int \<Rightarrow> int \<Rightarrow> SlowQueryInfo" where
  "example_record txt t rows bytes mem =
     \<lparr> query_id = ''q1'', query_text = txt, database = ''demo'', user = ''root'',
       execution_time = t, scan_rows = rows, scan_bytes = bytes, memory_used = mem,
       cpu_time = Finite 0, start_time = 0, end_time = 0, peak_memory = 0,
       rows_returned = 0 \<rparr>"

text \<open>A parser outcome used in examples: a statement is found in every text that is not empty.\<close>

definition finds_statement :: "string \<Rightarrow> bool" where
  "finds_statement txt = (txt \<noteq> [])"

text \<open>The types and severities of the problems in a result, in order.\<close>

definition findings :: "error + QueryProblem list \<Rightarrow> error + (ProblemType \<times> string) list" where
  "findings r =
     (case r of Inl e \<Rightarrow> Inl e | Inr ps \<Rightarrow> Inr (map (\<lambda>p. (problem_type p, severity p)) ps))"

text \<open>The five spellings of an aggregate call that \<open>aggregate_pattern\<close> looks for.\<close>

definition aggregate_calls :: "string list" where
  "aggregate_calls = [''COUNT('', ''SUM('', ''AVG('', ''MAX('', ''MIN('']"

text \<open>Example texts. The apostrophe is written \<open>CHR 0x27\<close>.\<close>

definition subquery_example :: string where
  "subquery_example = ''SELECT * FROM (SELECT id FROM t) x''"

definition no_where_example :: string where
  "no_where_example = ''SELECT name FROM customers''"

definition count_example :: string where
  "count_example = ''SELECT COUNT(*) FROM customers''"



text \<open>
  Case-insensitive reading of a text, stated without \<open>upper\<close>: two characters are the
  same letter when they are equal or are the two cases of one of the 26 letters.
\<close>

definition same_letter :: "char \<Rightarrow> char \<Rightarrow> bool" where
  "same_letter a b =
     (a = b \<or> (a, b) \<in> set (zip ascii_lowercase ascii_uppercase)
            \<or> (b, a) \<in> set (zip ascii_lowercase ascii_uppercase))"

fun begins_ci :: "string \<Rightarrow> string \<Rightarrow> bool" where
  "begins_ci s [] = True"
| "begins_ci [] (c # p) = False"
| "begins_ci (x # s) (c # p) = (same_letter x c \<and> begins_ci s p)"

fun contains_ci :: "string \<Rightarrow> string \<Rightarrow> bool" where
  "contains_ci [] p = (p = [])"
| "contains_ci (x # s) p = (begins_ci (x # s) p \<or> contains_ci s p)"

text \<open>\<open>str.isascii\<close>: every character is below 128.\<close>

definition isascii :: "string \<Rightarrow> bool" where
  "isascii s = list_all (\<lambda>c. \<not> digit7 c) s"

text \<open>
  A SELECT whose expression sits inside 10000 pairs of parentheses, and a parser outcome
  that finds a statement in every text but a given one. \<open>sqlparse.parse\<close> raises on such
  nesting (RecursionError, SQLParseError in later versions).
\<close>

definition deep_select :: string where
  "deep_select =
     ''SELECT '' @ replicate 10000 (CHR ''('') @ ''1'' @ replicate 10000 (CHR '')'')
       @ '' FROM t''"

definition gives_up_on :: "string \<Rightarrow> string \<Rightarrow> bool" where
  "gives_up_on bad txt = (txt \<noteq> bad)"
text \<open>
  A text with a sharp s before \<open>um(\<close>, which \<open>str.upper\<close> turns into \<open>SSUM(\<close>, and
  the two texts of the no-WHERE scenario in small and mixed letters.
\<close>

definition sharp_s_example :: string where
  "sharp_s_example = ''SELECT '' @ [CHR 0xDF] @ ''um(x) FROM t''"




text \<open>The seven names the dispatch of the suggester tests, in its order.\<close>

definition recognized_names :: "string list" where
  "recognized_names =
     [''FULL_TABLE_SCAN'', ''SELECT_STAR'', ''LIKE_PREFIX_WILDCARD'', ''OR_CONDITION'',
      ''FUNCTION_IN_WHERE'', ''TOO_MANY_ROWS'', ''SUBQUERY_INEFFICIENT'']"

definition recognized :: "QueryProblem \<Rightarrow> bool" where
  "recognized p = (name (problem_type p) \<in> set recognized_names)"

text \<open>
  The category the specification assigns to a recognized type: INDEX for FULL_TABLE_SCAN,
  QUERY for the six others.
\<close>

definition spec_category :: "ProblemType \<Rightarrow> string" where
  "spec_category t = (if t = FULL_TABLE_SCAN then ''INDEX'' else ''QUERY'')"

section \<open>Properties\<close>

subsection \<open>Shared facts\<close>

lemma example_record_fields [simp]:
  "query_text (example_record txt t rows bytes mem) = txt"
  "execution_time (example_record txt t rows bytes mem) = t"
  "scan_rows (example_record txt t rows bytes mem) = rows"
  "scan_bytes (example_record txt t rows bytes mem) = bytes"
  "memory_used (example_record txt t rows bytes mem) = mem"
  by (simp_all add: example_record_def)



lemma analyze_sql_structure_typed:
  "query_text q = Some txt \<Longrightarrow>
   analyze_sql_structure parses q =
     Inr (if parses txt
          then check_select_star (upper txt) @ check_or_condition (upper txt)
               @ check_like_prefix (upper txt) @ check_function_in_where (upper txt)
               @ check_no_where (upper txt) @ check_subquery (upper txt)
          else [])"
  by (simp add: analyze_sql_structure_def Let_def)


subsection \<open>The substitution loop always moves on\<close>

text \<open>
  A match never ends before its start, so the last branch of \<open>re_sub_from\<close>, which only
  serves its termination proof, is never taken.
\<close>

lemma greedy_length:
  "e \<in> set (greedy P cur) \<Longrightarrow> length (snd e) \<le> length (snd cur)"
  by (induction P cur rule: greedy.induct) (auto split: if_splits)

lemma lit_length:
  "e \<in> set (lit ic s cur) \<Longrightarrow> length (snd e) \<le> length (snd cur)"
  by (induction ic s cur rule: lit.induct) (auto split: if_splits)

lemma rmatch_length:
  "e \<in> set (rmatch ic r cur) \<Longrightarrow> length (snd e) \<le> length (snd cur)"
proof (induction r arbitrary: cur e)
  case (Lit s)
  then show ?case by (simp add: lit_length)
next
  case (Cls k)
  then show ?case by (cases cur; cases "snd cur") (auto split: if_splits)
next
  case (Plus k)
  then show ?case
    by (cases cur; cases "snd cur") (auto split: if_splits dest: greedy_length)
next
  case (Star k)
  then show ?case by (simp add: greedy_length)
next
  case (Alt a b)
  then have "e \<in> set (rmatch ic a cur) \<or> e \<in> set (rmatch ic b cur)"
    by simp
  then show ?case
    using Alt.IH(1) [of e cur] Alt.IH(2) [of e cur] by blast
next
  case (Seq a b)
  then obtain m where "m \<in> set (rmatch ic a cur)" "e \<in> set (rmatch ic b m)"
    by auto
  then show ?case
    using Seq.IH(1) [of m cur] Seq.IH(2) [of e m] by simp
next
  case WordBoundary
  then show ?case by (simp split: if_splits)
qed

lemma search_from_bounds:
  "search_from ic r cur = Some (b, e) \<Longrightarrow>
   length (snd b) \<le> length (snd cur) \<and> length (snd e) \<le> length (snd b)"
proof (induction ic r cur rule: search_from.induct)
  case (1 ic r p)
  then show ?case
    using rmatch_length [of e ic r "(p, [])"] by (auto split: list.splits)
next
  case (2 ic r p x xs)
  show ?case
  proof (cases "rmatch ic r (p, x # xs)")
    case Nil
    then show ?thesis using 2 by simp
  next
    case (Cons e' es)
    then have "b = (p, x # xs)" "e = e'"
      using "2.prems" by simp_all
    then show ?thesis
      using rmatch_length [of e ic r "(p, x # xs)"] Cons by simp
  qed
qed

lemma first_advancing_shorter:
  "first_advancing cur es = Some e \<Longrightarrow> length (snd e) < length (snd cur)"
  by (induction es) (auto split: if_splits)

lemma re_sub_from_moves_on:
  assumes "search_adv ic r adv cur = Some (b, e)"
  shows "length (snd e) < length (snd cur) \<or> (length (snd e) = length (snd cur) \<and> \<not> adv)"
proof (cases adv)
  case False
  then show ?thesis
    using assms search_from_bounds [of ic r cur b e] by (auto simp: search_adv_def)
next
  case True
  show ?thesis
  proof (cases "first_advancing cur (rmatch ic r cur)")
    case (Some e')
    then show ?thesis
      using assms True first_advancing_shorter [of cur _ e'] by (simp add: search_adv_def)
  next
    case None
    then obtain x xs where "snd cur = x # xs" "search_from ic r (Some x, xs) = Some (b, e)"
      using assms True by (auto simp: search_adv_def split: list.splits)
    then show ?thesis
      using search_from_bounds [of ic r "(Some x, xs)" b e] by simp
  qed
qed

subsection \<open>The execution-time pass\<close>



subsection \<open>The scan-volume pass\<close>




subsection \<open>Counters inside the range of a double raise nothing\<close>

lemma in_range_no_div_error:
  assumes "\<bar>a\<bar> < 2 ^ 1023" and "1 \<le> b"
  shows "true_div_error a b = None"
proof -
  define X :: int where "X = 2 ^ 1023"
  define Y :: int where "Y = 2 ^ 970"
  have "Suc 1023 = 1024"
    by simp
  then have "(2::int) ^ 1024 = 2 ^ Suc 1023"
    by (simp only:)
  then have top: "(2::int) ^ 1024 = 2 * X"
    unfolding X_def by (simp only: power_Suc)
  have "Y \<le> X"
    unfolding X_def Y_def by (rule power_increasing) simp_all
  moreover have "0 < X"
    unfolding X_def by (rule zero_less_power) simp
  ultimately have "X \<le> 2 * X - Y" and "0 \<le> 2 * X - Y"
    by linarith+
  moreover have "(2 * X - Y) * 1 \<le> (2 * X - Y) * b"
    using assms(2) \<open>0 \<le> 2 * X - Y\<close> by (rule mult_left_mono)
  ultimately have "X \<le> (2 * X - Y) * b"
    by simp
  then have "2 ^ 1023 \<le> (2 ^ 1024 - 2 ^ 970) * b"
    unfolding top unfolding X_def Y_def .
  then have "\<not> (2 ^ 1024 - 2 ^ 970) * b \<le> \<bar>a\<bar>"
    using assms(1) by (meson less_le_trans not_le)
  then show ?thesis
    unfolding true_div_error_def by (simp only: if_False)
qed

lemma in_range_no_text_error:
  assumes "\<bar>n\<bar> < 2 ^ 1023"
  shows "int_text_error n = None"
proof -
  have "(2::int) ^ 1023 \<le> 10 ^ 1023"
    by (rule power_mono) simp_all
  moreover have "(10::int) ^ 1023 \<le> 10 ^ 4300"
    by (rule power_increasing) simp_all
  ultimately have "\<bar>n\<bar> < 10 ^ 4300"
    using assms by (meson less_le_trans)
  then have "\<not> 10 ^ 4300 \<le> \<bar>n\<bar>"
    by (simp only: not_le)
  then show ?thesis
    unfolding int_text_error_def by (simp only: if_False)
qed

lemma in_range_no_scan_error:
  assumes "\<bar>scan_rows q\<bar> < 2 ^ 1023" and "\<bar>scan_bytes q\<bar> < 2 ^ 1023"
    and "\<bar>memory_used q\<bar> < 2 ^ 1023"
  shows "analyze_scan_data_error self q = None"
proof -
  have digits_ok: "int_text_error (scan_rows q) = None" "int_text_error (scan_bytes q) = None"
    using assms(1,2) by (simp_all only: in_range_no_text_error)
  have "true_div_error (scan_rows q) 100000000 = None"
      "true_div_error (scan_rows q) 10000 = None"
    using assms(1) by (simp_all add: in_range_no_div_error)
  then have rows: "scan_rows_formatted_error q = None"
    unfolding scan_rows_formatted_error_def by (simp only: digits_ok if_cancel)
  have "true_div_error (scan_bytes q) 1073741824 = None"
      "true_div_error (scan_bytes q) 1048576 = None"
      "true_div_error (scan_bytes q) 1024 = None"
    using assms(2) by (simp_all add: in_range_no_div_error)
  then have bytes: "scan_bytes_formatted_error q = None"
    unfolding scan_bytes_formatted_error_def by (simp only: digits_ok if_cancel)
  have memory: "true_div_error (memory_used q) 1048576 = None"
    using assms(3) by (rule in_range_no_div_error) simp
  show ?thesis
    unfolding analyze_scan_data_error_def
    by (simp only: rows bytes digits_ok memory first_error.simps if_cancel)
qed


subsection \<open>The detector returns\<close>





subsection \<open>The structure pass\<close>










text \<open>The checks on the example texts, computed.\<close>

lemma subquery_example_findings:
  "map (\<lambda>p. (problem_type p, severity p))
     (check_select_star (upper subquery_example) @ check_or_condition (upper subquery_example)
      @ check_like_prefix (upper subquery_example)
      @ check_function_in_where (upper subquery_example)
      @ check_no_where (upper subquery_example) @ check_subquery (upper subquery_example))
   = [(SELECT_STAR, ''MEDIUM''), (NO_WHERE_CLAUSE, ''HIGH'')]"
  by code_simp

lemma no_where_example_facts:
  "startswith (upper no_where_example) ''SELECT''"
  "\<not> contains (upper no_where_example) ''WHERE''"
  "\<not> contains (upper no_where_example) ''JOIN''"
  "\<not> (\<exists>c \<in> set aggregate_calls. contains (upper no_where_example) c)"
  by code_simp+

lemma count_example_facts:
  "startswith (upper count_example) ''SELECT''"
  "\<not> contains (upper count_example) ''WHERE''"
  "\<not> contains (upper count_example) ''JOIN''"
  "\<exists>c \<in> set aggregate_calls. contains (upper count_example) c"
  by code_simp+



text \<open>
  C5. The claim asks for a SUBQUERY_INEFFICIENT problem of severity MEDIUM on every text
  in which FROM is followed by a parenthesized SELECT. The pattern of the source asks for
  at least one character other than \<open>)\<close> between the parenthesis and SELECT, so the
  usual spelling \<open>FROM (SELECT\<close> is missed: on \<open>SELECT * FROM (SELECT id FROM t) x\<close> the
  structure pass returns SELECT_STAR and NO_WHERE_CLAUSE when the parser finds a
  statement, nothing otherwise, and no SUBQUERY_INEFFICIENT problem either way.
\<close>

theorem C5_subquery_missed:
  "findings (analyze_sql_structure parses
       (example_record (Some subquery_example) t rows bytes mem))
     = Inr (if parses subquery_example
            then [(SELECT_STAR, ''MEDIUM''), (NO_WHERE_CLAUSE, ''HIGH'')] else [])"
proof (cases "parses subquery_example")
  case True
  then show ?thesis
    using subquery_example_findings
    by (simp add: findings_def analyze_sql_structure_typed [of _ subquery_example])
next
  case False
  then show ?thesis
    by (simp add: findings_def analyze_sql_structure_typed [of _ subquery_example])
qed

subsection \<open>Case-insensitive reading and \<open>str.upper\<close>\<close>








text \<open>A word found in a text case-insensitively has each of its letters in the text.\<close>

lemma begins_ci_letters:
  "begins_ci s kw \<Longrightarrow> c \<in> set kw \<Longrightarrow> \<exists>x \<in> set s. same_letter x c"
  by (induction s kw rule: begins_ci.induct) auto

lemma contains_ci_letters:
  "contains_ci s kw \<Longrightarrow> c \<in> set kw \<Longrightarrow> \<exists>x \<in> set s. same_letter x c"
proof (induction s)
  case Nil
  then show ?case by simp
next
  case (Cons a s)
  then consider "begins_ci (a # s) kw" | "contains_ci s kw"
    by auto
  then show ?case
  proof cases
    case 1
    then show ?thesis
      using begins_ci_letters [of "a # s" kw c] Cons.prems(2) by blast
  next
    case 2
    then show ?thesis
      using Cons.IH Cons.prems(2) by auto
  qed
qed


text \<open>The example texts, read case-insensitively.\<close>

lemma deep_select_letters:
  "set deep_select = set ''SELECT (1)FROMt''"
  unfolding deep_select_def by (simp only: set_append set_replicate_conv_if) auto

lemma deep_select_reading:
  "begins_ci deep_select ''SELECT''"
  "\<not> contains_ci deep_select ''WHERE''"
  "\<not> contains_ci deep_select ''JOIN''"
  "\<not> (\<exists>c \<in> set aggregate_calls. contains_ci deep_select c)"
proof -
  show "begins_ci deep_select ''SELECT''"
    by (simp add: deep_select_def same_letter_def)
  have absent: "\<not> (\<exists>x \<in> set deep_select. same_letter x c)"
    if "c \<in> {CHR ''W'', CHR ''J'', CHR ''U'', CHR ''A'', CHR ''I''}" for c
    using that unfolding deep_select_letters
    by (auto simp: same_letter_def ascii_lowercase_def ascii_uppercase_def)
  show "\<not> contains_ci deep_select ''WHERE''"
    using contains_ci_letters [of deep_select "''WHERE''" "CHR ''W''"] absent by auto
  show "\<not> contains_ci deep_select ''JOIN''"
    using contains_ci_letters [of deep_select "''JOIN''" "CHR ''J''"] absent by auto
  have "\<not> contains_ci deep_select ''COUNT(''"
    using contains_ci_letters [of deep_select "''COUNT(''" "CHR ''U''"] absent by auto
  moreover have "\<not> contains_ci deep_select ''SUM(''"
    using contains_ci_letters [of deep_select "''SUM(''" "CHR ''U''"] absent by auto
  moreover have "\<not> contains_ci deep_select ''AVG(''"
    using contains_ci_letters [of deep_select "''AVG(''" "CHR ''A''"] absent by auto
  moreover have "\<not> contains_ci deep_select ''MAX(''"
    using contains_ci_letters [of deep_select "''MAX(''" "CHR ''A''"] absent by auto
  moreover have "\<not> contains_ci deep_select ''MIN(''"
    using contains_ci_letters [of deep_select "''MIN(''" "CHR ''I''"] absent by auto
  ultimately show "\<not> (\<exists>c \<in> set aggregate_calls. contains_ci deep_select c)"
    by (simp add: aggregate_calls_def)
qed

lemma sharp_s_example_reading:
  "begins_ci sharp_s_example ''SELECT''"
  "\<not> contains_ci sharp_s_example ''WHERE''"
  "\<not> contains_ci sharp_s_example ''JOIN''"
  "\<not> (\<exists>c \<in> set aggregate_calls. contains_ci sharp_s_example c)"
  "\<not> isascii sharp_s_example"
  "findings (analyze_sql_structure finds_statement
      (example_record (Some sharp_s_example) (Finite 0) 0 0 0)) = Inr []"
  by code_simp+



text \<open>
  C6 as stated fails. Each of the four texts and records below begins with SELECT, holds
  neither WHERE nor JOIN and has no aggregate call, read case-insensitively, and none
  gets a NO_WHERE_CLAUSE problem. On the deeply nested SELECT the parser gives up, the
  handler of the structure pass returns no problem and the detector returns the empty
  list. In the text with a sharp s, \<open>str.upper\<close> produces \<open>SSUM(\<close>, which the pass
  takes for an aggregate call. With \<open>10 ^ 400\<close> rows scanned the detector raises
  OverflowError, and with a plan whose \<open>str()\<close> raises it raises that exception.
\<close>

theorem C6_no_where_clause_counterexample:
  "begins_ci deep_select ''SELECT''
   \<and> \<not> contains_ci deep_select ''WHERE'' \<and> \<not> contains_ci deep_select ''JOIN''
   \<and> \<not> (\<exists>c \<in> set aggregate_calls. contains_ci deep_select c)
   \<and> findings (detect_problems (QueryAnalyzer_init None) (gives_up_on deep_select)
         (example_record (Some deep_select) (Finite 0) 0 0 0) None) = Inr []
   \<and> begins_ci sharp_s_example ''SELECT''
   \<and> \<not> contains_ci sharp_s_example ''WHERE'' \<and> \<not> contains_ci sharp_s_example ''JOIN''
   \<and> \<not> (\<exists>c \<in> set aggregate_calls. contains_ci sharp_s_example c)
   \<and> findings (detect_problems (QueryAnalyzer_init None) finds_statement
         (example_record (Some sharp_s_example) (Finite 0) 0 0 0) None) = Inr []
   \<and> begins_ci no_where_example ''SELECT''
   \<and> \<not> contains_ci no_where_example ''WHERE'' \<and> \<not> contains_ci no_where_example ''JOIN''
   \<and> \<not> (\<exists>c \<in> set aggregate_calls. contains_ci no_where_example c)
   \<and> detect_problems (QueryAnalyzer_init None) finds_statement
         (example_record (Some no_where_example) (Finite 0) (10 ^ 400) 0 0) None
       = Inl OverflowError
   \<and> detect_problems (QueryAnalyzer_init None) finds_statement
         (example_record (Some no_where_example) (Finite 0) 0 0 0)
         (Some \<lparr> bool_of = True, str_of = Inl RecursionError \<rparr>)
       = Inl RecursionError"
proof -
  have quiet: "analyze_scan_data_error (QueryAnalyzer_init None)
      (example_record body (Finite 0) 0 0 0) = None" for body
    by (rule in_range_no_scan_error) simp_all
  have passes12: "analyze_execution_time (example_record body (Finite 0) 0 0 0) = []"
      "analyze_scan_data (QueryAnalyzer_init None) (example_record body (Finite 0) 0 0 0) = []"
    for body
    by (simp_all add: analyze_execution_time_def analyze_scan_data_def QueryAnalyzer_init_def
        dict_get_def)
  have deep: "findings (detect_problems (QueryAnalyzer_init None) (gives_up_on deep_select)
      (example_record (Some deep_select) (Finite 0) 0 0 0) None) = Inr []"
    by (simp add: detect_problems_def analyze_scan_data_checked_def quiet passes12
        analyze_sql_structure_typed [of _ deep_select] gives_up_on_def findings_def)
  have "analyze_sql_structure finds_statement
      (example_record (Some sharp_s_example) (Finite 0) 0 0 0) = Inr []"
    using sharp_s_example_reading(6) by (simp add: findings_def split: sum.splits)
  then have sharp: "findings (detect_problems (QueryAnalyzer_init None) finds_statement
      (example_record (Some sharp_s_example) (Finite 0) 0 0 0) None) = Inr []"
    by (simp add: detect_problems_def analyze_scan_data_checked_def quiet passes12
        findings_def)
  have plain: "begins_ci no_where_example ''SELECT''"
      "\<not> contains_ci no_where_example ''WHERE''" "\<not> contains_ci no_where_example ''JOIN''"
      "\<not> (\<exists>c \<in> set aggregate_calls. contains_ci no_where_example c)"
    by code_simp+
  have "true_div_error (10 ^ 400) 100000000 = Some OverflowError"
    by (simp add: true_div_error_def)
  then have "analyze_scan_data_error (QueryAnalyzer_init None)
      (example_record (Some no_where_example) (Finite 0) (10 ^ 400) 0 0) = Some OverflowError"
    by (simp add: analyze_scan_data_error_def scan_rows_formatted_error_def
        QueryAnalyzer_init_def dict_get_def)
  then have huge: "detect_problems (QueryAnalyzer_init None) finds_statement
      (example_record (Some no_where_example) (Finite 0) (10 ^ 400) 0 0) None
      = Inl OverflowError"
    by (simp add: detect_problems_def analyze_scan_data_checked_def)
  have printing: "detect_problems (QueryAnalyzer_init None) finds_statement
      (example_record (Some no_where_example) (Finite 0) 0 0 0)
      (Some \<lparr> bool_of = True, str_of = Inl RecursionError \<rparr>) = Inl RecursionError"
    by (simp add: detect_problems_def analyze_scan_data_checked_def quiet
        analyze_sql_structure_typed [of _ no_where_example])
  show ?thesis
    using deep_select_reading deep sharp_s_example_reading(1,2,3,4) sharp plain huge printing
    by (intro conjI)
qed





subsection \<open>The suggester\<close>

lemmas suggesters =
  suggest_index_optimization_def suggest_specific_columns_def suggest_like_optimization_def
  suggest_or_replacement_def suggest_function_optimization_def suggest_row_reduction_def
  suggest_cte_or_join_def lift_suggestion_def

lemma recognized_iff:
  "recognized p \<longleftrightarrow>
     problem_type p \<in> {FULL_TABLE_SCAN, SELECT_STAR, LIKE_PREFIX_WILDCARD, OR_CONDITION,
                        FUNCTION_IN_WHERE, TOO_MANY_ROWS, SUBQUERY_INEFFICIENT}"
  by (cases "problem_type p") (simp_all add: recognized_def recognized_names_def)

lemma dispatch_unrecognized:
  "\<not> recognized p \<Longrightarrow> generate_suggestion_for_problem q p = Inr None"
  by (cases "problem_type p")
     (simp_all add: recognized_def recognized_names_def generate_suggestion_for_problem_def)

lemma dispatch_recognized_typed:
  "query_text q = Some sql \<Longrightarrow> recognized p \<Longrightarrow>
   \<exists>s. generate_suggestion_for_problem q p = Inr (Some s)
      \<and> category s = spec_category (problem_type p) \<and> original_sql s = Some sql"
  by (cases "problem_type p")
     (simp_all add: recognized_def recognized_names_def generate_suggestion_for_problem_def
        suggesters spec_category_def)

lemma dispatch_recognized_not_None:
  "recognized p \<Longrightarrow> generate_suggestion_for_problem q p \<noteq> Inr None"
  by (cases "problem_type p"; cases "query_text q")
     (simp_all add: recognized_def recognized_names_def generate_suggestion_for_problem_def
        suggesters)

lemma dispatch_original_sql:
  "generate_suggestion_for_problem q p = Inr (Some s) \<Longrightarrow> original_sql s = query_text q"
  by (cases "problem_type p"; cases "query_text q")
     (auto simp: generate_suggestion_for_problem_def suggesters)

lemma loop_typed:
  "query_text q = Some sql \<Longrightarrow>
   \<exists>new. suggestions_loop q acc ps = Inr (acc @ new)
      \<and> map category new = map (\<lambda>p. spec_category (problem_type p)) (filter recognized ps)"
proof (induction ps arbitrary: acc)
  case Nil
  then show ?case by simp
next
  case (Cons p ps)
  show ?case
  proof (cases "recognized p")
    case True
    then obtain s where s: "generate_suggestion_for_problem q p = Inr (Some s)"
        "category s = spec_category (problem_type p)"
      using dispatch_recognized_typed [OF Cons.prems] by blast
    obtain new where new: "suggestions_loop q (acc @ [s]) ps = Inr ((acc @ [s]) @ new)"
        "map category new = map (\<lambda>p. spec_category (problem_type p)) (filter recognized ps)"
      using Cons.IH [OF Cons.prems, of "acc @ [s]"] by blast
    show ?thesis
      using True s new by (intro exI [of _ "s # new"]) simp
  next
    case False
    then show ?thesis
      using Cons.IH [OF Cons.prems, of acc] by (simp add: dispatch_unrecognized)
  qed
qed

lemma loop_invariant:
  "suggestions_loop q acc ps = Inr ss \<Longrightarrow>
   \<exists>new. ss = acc @ new \<and> length new \<le> length ps
      \<and> (\<forall>s \<in> set new. original_sql s = query_text q)"
proof (induction ps arbitrary: acc)
  case Nil
  then show ?case by simp
next
  case (Cons p ps)
  show ?case
  proof (cases "generate_suggestion_for_problem q p")
    case (Inl e)
    then show ?thesis using Cons.prems by simp
  next
    case (Inr r)
    show ?thesis
    proof (cases r)
      case None
      then show ?thesis
        using Cons.IH [of acc] Cons.prems Inr by fastforce
    next
      case (Some s)
      then obtain new where "ss = (acc @ [s]) @ new" "length new \<le> length ps"
          "\<forall>s \<in> set new. original_sql s = query_text q"
        using Cons.IH [of "acc @ [s]"] Cons.prems Inr by auto
      then show ?thesis
        using dispatch_original_sql [of q p s] Inr Some
        by (intro exI [of _ "s # new"]) simp
    qed
  qed
qed

lemma loop_unrecognized:
  "\<forall>p \<in> set ps. \<not> recognized p \<Longrightarrow> suggestions_loop q acc ps = Inr acc"
  by (induction ps) (simp_all add: dispatch_unrecognized)



lemma detector_emits_unmapped:
  "findings (analyze_query (QueryAnalyzer_init None) finds_statement
       (example_record (Some no_where_example) (Finite 0) 0 0 536870913) None)
     = Inr [(MEMORY_INTENSIVE, ''MEDIUM''), (NO_WHERE_CLAUSE, ''HIGH'')]"
  by code_simp

text \<open>
  C9. The dispatch of the suggester returns no suggestion exactly for the problems whose
  type is not one of FULL_TABLE_SCAN, SELECT_STAR, LIKE_PREFIX_WILDCARD, OR_CONDITION,
  FUNCTION_IN_WHERE, TOO_MANY_ROWS and SUBQUERY_INEFFICIENT. So for every query record a
  problem of type NO_WHERE_CLAUSE or MEMORY_INTENSIVE gets no suggestion, alone or in a
  list of such problems. The detector does emit both types: on \<open>SELECT name FROM
  customers\<close> with 512 MiB and one byte of memory it returns exactly these two.
\<close>

theorem C9_unmapped_types:
  "(generate_suggestion_for_problem q p = Inr None \<longleftrightarrow>
      problem_type p \<notin> {FULL_TABLE_SCAN, SELECT_STAR, LIKE_PREFIX_WILDCARD, OR_CONDITION,
                         FUNCTION_IN_WHERE, TOO_MANY_ROWS, SUBQUERY_INEFFICIENT})
   \<and> (problem_type p \<in> {NO_WHERE_CLAUSE, MEMORY_INTENSIVE} \<longrightarrow>
        generate_suggestions q [p] = Inr [])
   \<and> ((\<forall>p \<in> set ps. problem_type p \<in> {NO_WHERE_CLAUSE, MEMORY_INTENSIVE}) \<longrightarrow>
        generate_suggestions q ps = Inr [])
   \<and> findings (analyze_query (QueryAnalyzer_init None) finds_statement
          (example_record (Some no_where_example) (Finite 0) 0 0 536870913) None)
        = Inr [(MEMORY_INTENSIVE, ''MEDIUM''), (NO_WHERE_CLAUSE, ''HIGH'')]"
proof -
  have exact: "generate_suggestion_for_problem q p = Inr None \<longleftrightarrow>
      problem_type p \<notin> {FULL_TABLE_SCAN, SELECT_STAR, LIKE_PREFIX_WILDCARD, OR_CONDITION,
                         FUNCTION_IN_WHERE, TOO_MANY_ROWS, SUBQUERY_INEFFICIENT}"
    using dispatch_unrecognized [of p q] dispatch_recognized_not_None [of p q]
      recognized_iff [of p] by blast
  have lists: "generate_suggestions q ps' = Inr []"
    if "\<forall>p \<in> set ps'. problem_type p \<in> {NO_WHERE_CLAUSE, MEMORY_INTENSIVE}" for ps'
  proof -
    have "\<forall>p \<in> set ps'. \<not> recognized p"
      using that by (auto simp: recognized_iff)
    then show ?thesis
      by (simp add: generate_suggestions_def loop_unrecognized)
  qed
  show ?thesis
    using exact lists [of "[p]"] lists [of ps] detector_emits_unmapped by simp
qed

theorem C9_unmapped_types_witness:
  "generate_suggestions (example_record (Some no_where_example) (Finite 0) 0 0 536870913)
     [QueryProblem_new MEMORY_INTENSIVE ''MEDIUM'' (Verbatim []) (Verbatim []) (Verbatim []),
      QueryProblem_new NO_WHERE_CLAUSE ''HIGH'' (Verbatim []) (Verbatim []) (Verbatim [])]
     = Inr []
   \<and> generate_suggestions (example_record (Some no_where_example) (Finite 0) 0 0 536870913)
       [QueryProblem_new NO_WHERE_CLAUSE ''HIGH'' (Verbatim []) (Verbatim []) (Verbatim [])]
     = Inr []"
  using
    C9_unmapped_types
      [of "example_record (Some no_where_example) (Finite 0) 0 0 536870913"
          "QueryProblem_new NO_WHERE_CLAUSE ''HIGH'' (Verbatim []) (Verbatim []) (Verbatim [])"
          "[QueryProblem_new MEMORY_INTENSIVE ''MEDIUM'' (Verbatim []) (Verbatim []) (Verbatim []),
            QueryProblem_new NO_WHERE_CLAUSE ''HIGH'' (Verbatim []) (Verbatim []) (Verbatim [])]"]
  by (simp add: QueryProblem_new_def)

text \<open>
  C10. Whenever the suggester returns a list, every suggestion in it carries the record's
  text as \<open>original_sql\<close> and the list is no longer than the list of problems; and for a
  record with a text it does return a list.
\<close>

theorem C10_suggester_invariant:
  "(generate_suggestions q problems = Inr ss \<longrightarrow>
      (\<forall>s \<in> set ss. original_sql s = query_text q) \<and> length ss \<le> length problems)
   \<and> (query_text q = Some sql \<longrightarrow> (\<exists>ss'. generate_suggestions q problems = Inr ss'))"
proof -
  have inv: "(\<forall>s \<in> set ss. original_sql s = query_text q) \<and> length ss \<le> length problems"
    if "generate_suggestions q problems = Inr ss"
    using loop_invariant [of q "[]" problems ss] that
    by (auto simp: generate_suggestions_def)
  have total: "\<exists>ss'. generate_suggestions q problems = Inr ss'" if "query_text q = Some sql"
    using loop_typed [OF that, of "[]" problems] by (auto simp: generate_suggestions_def)
  show ?thesis
    using inv total by blast
qed

theorem C10_suggester_invariant_witness:
  "query_text (example_record (Some ''SELECT 1'') (Finite 12) 0 0 0) = Some ''SELECT 1''
   \<and> (\<exists>ss. generate_suggestions (example_record (Some ''SELECT 1'') (Finite 12) 0 0 0)
              [QueryProblem_new FULL_TABLE_SCAN ''CRITICAL'' (Verbatim []) (Verbatim []) (Verbatim []),
               QueryProblem_new NO_INDEX ''LOW'' (Verbatim []) (Verbatim []) (Verbatim [])]
            = Inr ss
          \<and> map original_sql ss = [Some ''SELECT 1'']
          \<and> length ss \<le> 2)"
proof -
  let ?q = "example_record (Some ''SELECT 1'') (Finite 12) 0 0 0"
  let ?ps = "[QueryProblem_new FULL_TABLE_SCAN ''CRITICAL'' (Verbatim []) (Verbatim []) (Verbatim []),
              QueryProblem_new NO_INDEX ''LOW'' (Verbatim []) (Verbatim []) (Verbatim [])]"
  obtain ss where ss: "generate_suggestions ?q ?ps = Inr ss"
    using C10_suggester_invariant [of ?q ?ps _ "''SELECT 1''"] by auto
  have inv: "(\<forall>s \<in> set ss. original_sql s = query_text ?q) \<and> length ss \<le> length ?ps"
    using C10_suggester_invariant [of ?q ?ps ss "''SELECT 1''"] ss by blast
  have "length ss = 1"
    using ss
    by (auto simp: generate_suggestions_def generate_suggestion_for_problem_def
        QueryProblem_new_def suggesters)
  then obtain s where "ss = [s]"
    by (cases ss) auto
  then show ?thesis
    using ss inv by simp
qed

subsection \<open>The severity of a query record\<close>

text \<open>
  C8. The severity attribute of a query record is CRITICAL for a duration of at least 10
  seconds, HIGH from 5 up to 10, MEDIUM from 1 up to 5 and LOW below 1; it depends on
  the duration alone and is always one of these four strings.
\<close>

theorem C8_severity_buckets:
  "(float_ge (execution_time q) 10 \<longrightarrow> SlowQueryInfo_severity q = ''CRITICAL'')
   \<and> (float_ge (execution_time q) 5 \<and> float_lt (execution_time q) 10
        \<longrightarrow> SlowQueryInfo_severity q = ''HIGH'')
   \<and> (float_ge (execution_time q) 1 \<and> float_lt (execution_time q) 5
        \<longrightarrow> SlowQueryInfo_severity q = ''MEDIUM'')
   \<and> (float_lt (execution_time q) 1 \<longrightarrow> SlowQueryInfo_severity q = ''LOW'')
   \<and> (execution_time q = execution_time q' \<longrightarrow>
        SlowQueryInfo_severity q = SlowQueryInfo_severity q')
   \<and> SlowQueryInfo_severity q \<in> {''CRITICAL'', ''HIGH'', ''MEDIUM'', ''LOW''}"
  by (cases "execution_time q") (auto simp: SlowQueryInfo_severity_def)

theorem C8_severity_buckets_witness:
  "float_ge (Finite 12) 10
   \<and> SlowQueryInfo_severity (example_record (Some ''SELECT 1'') (Finite 12) 0 0 0) = ''CRITICAL''
   \<and> float_ge (Finite 7) 5 \<and> float_lt (Finite 7) 10
   \<and> SlowQueryInfo_severity (example_record (Some ''SELECT 1'') (Finite 7) 0 0 0) = ''HIGH''
   \<and> float_ge (Finite 2) 1 \<and> float_lt (Finite 2) 5
   \<and> SlowQueryInfo_severity (example_record (Some ''SELECT 1'') (Finite 2) 0 0 0) = ''MEDIUM''
   \<and> float_lt (Finite (1/2)) 1
   \<and> SlowQueryInfo_severity (example_record (Some ''SELECT 1'') (Finite (1/2)) 0 0 0) = ''LOW''
   \<and> SlowQueryInfo_severity (example_record (Some ''SELECT 1'') (Finite 2) 0 0 0)
       = SlowQueryInfo_severity (example_record None (Finite 2) 5 6 7)"
  using
    C8_severity_buckets [of "example_record (Some ''SELECT 1'') (Finite 12) 0 0 0"
                            "example_record None (Finite 2) 5 6 7"]
    C8_severity_buckets [of "example_record (Some ''SELECT 1'') (Finite 7) 0 0 0"
                            "example_record None (Finite 2) 5 6 7"]
    C8_severity_buckets [of "example_record (Some ''SELECT 1'') (Finite 2) 0 0 0"
                            "example_record None (Finite 2) 5 6 7"]
    C8_severity_buckets [of "example_record (Some ''SELECT 1'') (Finite (1/2)) 0 0 0"
                            "example_record None (Finite 2) 5 6 7"]
  by auto

end
